theory Spec2Isabelle
  imports Complex_Main
begin

section \<open>Text\<close>

text \<open>
  Python text is modelled by HOL strings; a character stands for a code point below 256.
  \<open>isspace\<close> is \<open>str.isspace\<close> on these code points, so \<open>strip\<close> is \<open>str.strip()\<close>.
  \<open>upper\<close> and \<open>lower\<close> are \<open>str.upper()\<close> and \<open>str.lower()\<close>, except on the three
  code points 181, 223 and 255, whose upper-case forms lie outside this range and are never ASCII:
  the model leaves them unchanged.
\<close>

definition isspace :: "char \<Rightarrow> bool" where
  "isspace c = (of_char c \<in> {9, 10, 11, 12, 13, 28, 29, 30, 31, 32, 133, 160 :: nat})"

definition strip :: "string \<Rightarrow> string" where
  "strip s = rev (dropWhile isspace (rev (dropWhile isspace s)))"

definition upper_char :: "char \<Rightarrow> char" where
  "upper_char c =
     (let n = of_char c :: nat in
      if (97 \<le> n \<and> n \<le> 122) \<or> (224 \<le> n \<and> n \<le> 254 \<and> n \<noteq> 247)
      then char_of (n - 32) else c)"

definition upper :: "string \<Rightarrow> string" where
  "upper s = map upper_char s"

definition lower_char :: "char \<Rightarrow> char" where
  "lower_char c =
     (let n = of_char c :: nat in
      if (65 \<le> n \<and> n \<le> 90) \<or> (192 \<le> n \<and> n \<le> 222 \<and> n \<noteq> 215)
      then char_of (n + 32) else c)"

definition lower :: "string \<Rightarrow> string" where
  "lower s = map lower_char s"

text \<open>\<open>s.replace("|", " ")\<close>\<close>

definition replace_pipe :: "string \<Rightarrow> string" where
  "replace_pipe s = map (\<lambda>c. if c = CHR ''|'' then CHR '' '' else c) s"

text \<open>\<open>str(n)\<close> for an integer \<open>n\<close>: its decimal digits.\<close>

fun str_nat :: "nat \<Rightarrow> string" where
  "str_nat n =
     (if n < 10 then [char_of (48 + n)] else str_nat (n div 10) @ [char_of (48 + n mod 10)])"

declare str_nat.simps [simp del]

definition str_int :: "int \<Rightarrow> string" where
  "str_int i = (if i < 0 then CHR ''-'' # str_nat (nat (- i)) else str_nat (nat i))"

section \<open>Decoded values\<close>

text \<open>
  The exceptions the handlers can raise and do not catch; Flask answers them with status 500.
\<close>

datatype error = AttributeError | ValueError | OverflowError

text \<open>
  A value of the decoded request body: what \<open>json.loads\<close> produces, or a string of the pipe and
  \<open>KEY=VALUE\<close> dialects. A dict is an association list read with \<open>map_of\<close>.
  The type \<open>'f\<close> is Python's \<open>float\<close>.
\<close>

datatype 'f jval =
    JNull
  | JBool bool
  | JInt int
  | JFloat 'f
  | JStr string
  | JArr "'f jval list"
  | JObj "(string \<times> 'f jval) list"

type_synonym 'f pydict = "(string \<times> 'f jval) list"

text \<open>
  The operations of Python's \<open>float\<close> that the program uses. They are not part of the
  repository, and binary floating point and its decimal notation are not modelled: the program
  is modelled over any implementation of them.
  \<^item> \<open>float_of_int n\<close> is \<open>float(n)\<close> for an \<open>int\<close>; \<open>None\<close> stands for \<open>OverflowError\<close>;
  \<^item> \<open>float_of_str s\<close> is \<open>float(s)\<close> for a \<open>str\<close>; \<open>None\<close> stands for \<open>ValueError\<close>;
  \<^item> \<open>float_truthy x\<close> is \<open>bool(x)\<close>;
  \<^item> \<open>int_of_float x\<close> is \<open>int(x)\<close>, which raises on infinities and NaN;
  \<^item> \<open>str_of_float x\<close> is \<open>str(x)\<close>;
  \<^item> \<open>lit_0_01\<close> is the literal \<open>0.01\<close>.
\<close>

record 'f pyfloat =
  float_of_int :: "int \<Rightarrow> 'f option"
  float_of_str :: "string \<Rightarrow> 'f option"
  float_truthy :: "'f \<Rightarrow> bool"
  int_of_float :: "'f \<Rightarrow> error + int"
  str_of_float :: "'f \<Rightarrow> string"
  lit_0_01 :: 'f

text \<open>Truth value of a Python object, and \<open>a or b\<close>.\<close>

fun truthy :: "'f pyfloat \<Rightarrow> 'f jval \<Rightarrow> bool" where
  "truthy P JNull = False"
| "truthy P (JBool b) = b"
| "truthy P (JInt n) = (n \<noteq> 0)"
| "truthy P (JFloat x) = float_truthy P x"
| "truthy P (JStr s) = (s \<noteq> [])"
| "truthy P (JArr xs) = (xs \<noteq> [])"
| "truthy P (JObj kvs) = (kvs \<noteq> [])"

definition por :: "'f pyfloat \<Rightarrow> 'f jval \<Rightarrow> 'f jval \<Rightarrow> 'f jval" where
  "por P a b = (if truthy P a then a else b)"

text \<open>\<open>data.get(k)\<close>\<close>

definition dget :: "'f pydict \<Rightarrow> string \<Rightarrow> 'f jval" where
  "dget data k = (case map_of data k of None \<Rightarrow> JNull | Some v \<Rightarrow> v)"

text \<open>A header or query parameter: a \<open>str\<close>, or \<open>None\<close> when the request has none.\<close>

definition jopt :: "string option \<Rightarrow> 'f jval" where
  "jopt x = (case x of None \<Rightarrow> JNull | Some s \<Rightarrow> JStr s)"

text \<open>\<open>x.strip()\<close>: only a \<open>str\<close> has the method.\<close>

definition str_strip :: "'f jval \<Rightarrow> error + string" where
  "str_strip v = (case v of JStr s \<Rightarrow> Inr (strip s) | _ \<Rightarrow> Inl AttributeError)"

definition bind_error :: "error + 'a \<Rightarrow> ('a \<Rightarrow> error + 'b) \<Rightarrow> error + 'b" where
  "bind_error m f = (case m of Inl e \<Rightarrow> Inl e | Inr x \<Rightarrow> f x)"

section \<open>Configuration and clock\<close>

text \<open>
  \<open>datetime.time\<close>: the constructor admits only valid fields; two naive times compare as the
  tuples of their fields.
\<close>

record pytime =
  hour :: nat
  minute :: nat
  second :: nat
  microsecond :: nat

definition valid_time :: "pytime \<Rightarrow> bool" where
  "valid_time t = (hour t < 24 \<and> minute t < 60 \<and> second t < 60 \<and> microsecond t < 1000000)"

definition time_le :: "pytime \<Rightarrow> pytime \<Rightarrow> bool" where
  "time_le a b =
     (hour a < hour b \<or> (hour a = hour b \<and>
       (minute a < minute b \<or> (minute a = minute b \<and>
         (second a < second b \<or> (second a = second b \<and> microsecond a \<le> microsecond b))))))"

text \<open>Microseconds since local midnight.\<close>

definition time_of_day :: "pytime \<Rightarrow> nat" where
  "time_of_day t = ((hour t * 60 + minute t) * 60 + second t) * 1000000 + microsecond t"

text \<open>
  A value of \<open>now_pr()\<close>, an aware \<open>datetime\<close> in the zone America/Puerto_Rico, by the two
  observations the program makes of it: \<open>dt.time()\<close> and \<open>dt.isoformat()\<close>.
\<close>

record datetime =
  dt_time :: pytime
  dt_isoformat :: string

text \<open>The module's globals once it is loaded.\<close>

record config =
  SECRET :: string
  ENFORCE_HOURS :: string
  START_HHMM :: string
  END_HHMM :: string
  TRADE_START :: pytime
  TRADE_END :: pytime

definition in_trade_window :: "config \<Rightarrow> datetime \<Rightarrow> bool" where
  "in_trade_window cfg dt =
     (if ENFORCE_HOURS cfg \<noteq> ''1'' then True
      else let t = dt_time dt in time_le (TRADE_START cfg) t \<and> time_le t (TRADE_END cfg))"

section \<open>Authentication and normalisation\<close>

definition check_secret ::
  "config \<Rightarrow> 'f pyfloat \<Rightarrow> 'f jval \<Rightarrow> 'f jval \<Rightarrow> 'f jval \<Rightarrow> error + bool" where
  "check_secret cfg P payload_secret header_secret query_secret =
     (if SECRET cfg = [] then Inr False
      else bind_error
        (str_strip (por P (por P (por P payload_secret header_secret) query_secret) (JStr [])))
        (\<lambda>candidate. Inr (candidate = SECRET cfg)))"

definition normalize_action :: "'f pyfloat \<Rightarrow> 'f jval \<Rightarrow> error + string" where
  "normalize_action P a =
     bind_error (str_strip (por P a (JStr [])))
       (\<lambda>s. let a = upper s in
          if a = ''BUY'' \<or> a = ''LONG'' then Inr ''BUY''
          else if a = ''SELL'' \<or> a = ''SHORT'' then Inr ''SELL''
          else Inr [])"

text \<open>
  \<open>safe_float\<close> catches every exception. For a list or a dict, \<open>str(x)\<close> starts with a bracket
  or a brace, so \<open>float\<close> raises \<open>ValueError\<close> and the result is \<open>None\<close>. A \<open>bool\<close> is an
  \<open>int\<close>.
\<close>

fun safe_float :: "'f pyfloat \<Rightarrow> 'f jval \<Rightarrow> 'f option" where
  "safe_float P JNull = None"
| "safe_float P (JBool b) = float_of_int P (if b then 1 else 0)"
| "safe_float P (JInt n) = float_of_int P n"
| "safe_float P (JFloat x) = Some x"
| "safe_float P (JStr x) =
     (let s = strip x in
      if s = [] \<or> lower s = ''na'' then None else float_of_str P s)"
| "safe_float P (JArr xs) = None"
| "safe_float P (JObj kvs) = None"

record 'f signal =
  sig_id :: string
  sig_ts :: string
  sig_action :: string
  sig_symbol :: string
  sig_lots :: 'f
  sig_sl :: "'f option"
  sig_tp :: "'f option"
  sig_comment :: string
  sig_magic :: int
  sig_raw :: "'f pydict"

text \<open>
  \<open>build_signal\<close> reads two things besides \<open>data\<close>: \<open>uuid8\<close>, the first eight characters of a
  fresh UUID, and \<open>now\<close>, the clock.
\<close>

definition build_signal ::
  "'f pyfloat \<Rightarrow> 'f pydict \<Rightarrow> string \<Rightarrow> datetime \<Rightarrow> error + 'f signal" where
  "build_signal P data uuid8 now =
     bind_error
       (normalize_action P
         (por P (por P (dget data ''action'') (dget data ''side'')) (dget data ''signal'')))
     (\<lambda>action.
     bind_error
       (str_strip (por P (por P (dget data ''symbol'') (dget data ''ticker'')) (JStr ''XAUUSD'')))
     (\<lambda>symbol.
     let lots =
           (case safe_float P
                   (por P (por P (por P (dget data ''lots'') (dget data ''lot'')) (dget data ''qty''))
                      (JFloat (lit_0_01 P))) of
              None \<Rightarrow> lit_0_01 P
            | Some x \<Rightarrow> if float_truthy P x then x else lit_0_01 P);
         sl = safe_float P (dget data ''sl'');
         tp = safe_float P (dget data ''tp'')
     in
     bind_error
       (str_strip (por P (por P (dget data ''comment'') (dget data ''cmt'')) (JStr ''TV'')))
     (\<lambda>comment.
     bind_error
       (case safe_float P (por P (dget data ''magic'') (JInt 2026)) of
          None \<Rightarrow> Inr 2026
        | Some x \<Rightarrow> if float_truthy P x then int_of_float P x else Inr 2026)
     (\<lambda>magic.
     bind_error
       (str_strip (por P (por P (dget data ''id'') (dget data ''signal_id'')) (JStr uuid8)))
     (\<lambda>sig_id.
     Inr \<lparr> sig_id = sig_id, sig_ts = dt_isoformat now, sig_action = action,
           sig_symbol = symbol, sig_lots = lots, sig_sl = sl, sig_tp = tp,
           sig_comment = comment, sig_magic = magic, sig_raw = data \<rparr>)))))"

section \<open>The one-shot store and the handlers\<close>

text \<open>The global \<open>STATE\<close>: the slots \<open>"last"\<close> and \<open>"pending"\<close>.\<close>

record 'f state =
  last_sig :: "'f signal option"
  pending :: "'f signal option"

definition STATE_init :: "'f state" where
  "STATE_init = \<lparr> last_sig = None, pending = None \<rparr>"

text \<open>
  A response, by the handler's \<open>return\<close> that makes it. \<open>InternalError\<close> is Flask's answer
  to an exception no handler catches.
\<close>

datatype 'f response =
    RootOk string string bool
  | HealthOk string bool bool "string option"
  | Unauthorized
  | OutsideTradeWindow string string string
  | MissingAction
  | Stored string string
  | LatestOk "'f signal option"
  | PullJson "'f signal option"
  | PullText string
  | InternalError error

fun status_code :: "'f response \<Rightarrow> nat" where
  "status_code Unauthorized = 401"
| "status_code (OutsideTradeWindow t s e) = 403"
| "status_code MissingAction = 400"
| "status_code (InternalError e) = 500"
| "status_code r = 200"

definition root :: "config \<Rightarrow> 'f response" where
  "root cfg = RootOk (START_HHMM cfg) (END_HHMM cfg) (ENFORCE_HOURS cfg = ''1'')"

definition health :: "config \<Rightarrow> datetime \<Rightarrow> 'f state \<Rightarrow> 'f response" where
  "health cfg now st =
     HealthOk (dt_isoformat now) (SECRET cfg \<noteq> []) (pending st \<noteq> None)
       (case last_sig st of None \<Rightarrow> None | Some s \<Rightarrow> Some (sig_id s))"

text \<open>
  \<open>webhook\<close>: \<open>data\<close> is the dict that \<open>parse_body_to_dict()\<close> returns (a JSON body that
  is not an object is outside the model), \<open>dt\<close> the clock read by the handler, \<open>uuid8\<close> and
  \<open>now\<close> what \<open>build_signal\<close> reads. \<open>tg_send\<close> changes neither the state nor the response
  and is left out.
\<close>

definition webhook ::
  "config \<Rightarrow> 'f pyfloat \<Rightarrow> 'f pydict \<Rightarrow> string option \<Rightarrow> string option \<Rightarrow> datetime \<Rightarrow>
   string \<Rightarrow> datetime \<Rightarrow> 'f state \<Rightarrow> 'f response \<times> 'f state" where
  "webhook cfg P data header_secret query_secret dt uuid8 now st =
     (let payload_secret = por P (por P (dget data ''secret'') (dget data ''key'')) (dget data ''token'')
      in case check_secret cfg P payload_secret (jopt header_secret) (jopt query_secret) of
           Inl e \<Rightarrow> (InternalError e, st)
         | Inr ok \<Rightarrow>
             if \<not> ok then (Unauthorized, st)
             else if \<not> in_trade_window cfg dt
             then (OutsideTradeWindow (dt_isoformat dt) (START_HHMM cfg) (END_HHMM cfg), st)
             else (case build_signal P data uuid8 now of
                     Inl e \<Rightarrow> (InternalError e, st)
                   | Inr sig \<Rightarrow>
                       if sig_action sig = [] then (MissingAction, st)
                       else (Stored (sig_id sig) (sig_ts sig),
                             st\<lparr> last_sig := Some sig, pending := Some sig \<rparr>)))"

definition latest ::
  "config \<Rightarrow> 'f pyfloat \<Rightarrow> string option \<Rightarrow> string option \<Rightarrow> 'f state \<Rightarrow> 'f response" where
  "latest cfg P header_secret query_secret st =
     (case check_secret cfg P JNull (jopt header_secret) (jopt query_secret) of
        Inl e \<Rightarrow> InternalError e
      | Inr ok \<Rightarrow> if \<not> ok then Unauthorized else LatestOk (last_sig st))"

text \<open>\<open>(request.args.get("format") or "json").lower()\<close>\<close>

definition fmt_of :: "string option \<Rightarrow> string" where
  "fmt_of format = lower (case format of None \<Rightarrow> ''json'' | Some f \<Rightarrow> if f = [] then ''json'' else f)"

text \<open>The line of \<open>format=txt\<close>: \<open>OK|id|action|symbol|lots|sl|tp|ts|magic|comment\<close>.\<close>

definition line_text :: "'f pyfloat \<Rightarrow> 'f signal \<Rightarrow> string" where
  "line_text P sig =
     (let sl = (case sig_sl sig of None \<Rightarrow> [] | Some x \<Rightarrow> str_of_float P x);
          tp = (case sig_tp sig of None \<Rightarrow> [] | Some x \<Rightarrow> str_of_float P x);
          comment = replace_pipe (sig_comment sig)
      in ''OK|'' @ sig_id sig @ ''|'' @ sig_action sig @ ''|'' @ sig_symbol sig @ ''|''
         @ str_of_float P (sig_lots sig) @ ''|'' @ sl @ ''|'' @ tp @ ''|'' @ sig_ts sig @ ''|''
         @ str_int (sig_magic sig) @ ''|'' @ comment)"

definition pull ::
  "config \<Rightarrow> 'f pyfloat \<Rightarrow> string option \<Rightarrow> string option \<Rightarrow> string option \<Rightarrow> 'f state \<Rightarrow>
   'f response \<times> 'f state" where
  "pull cfg P header_secret query_secret format st =
     (case check_secret cfg P JNull (jopt header_secret) (jopt query_secret) of
        Inl e \<Rightarrow> (InternalError e, st)
      | Inr ok \<Rightarrow>
          if \<not> ok then (Unauthorized, st)
          else let fmt = fmt_of format in
            (case pending st of
               None \<Rightarrow> (if fmt = ''txt'' then PullText ''NONE'' else PullJson None, st)
             | Some sig \<Rightarrow>
                 (if fmt = ''txt'' then PullText (line_text P sig) else PullJson (Some sig),
                  st\<lparr> pending := None \<rparr>)))"

text \<open>A request, with what its handler reads from the environment.\<close>

datatype 'f request =
    GetRoot
  | GetHealth datetime
  | PostWebhook "'f pydict" "string option" "string option" datetime string datetime
  | GetLatest "string option" "string option"
  | GetPull "string option" "string option" "string option"

fun handle :: "config \<Rightarrow> 'f pyfloat \<Rightarrow> 'f request \<Rightarrow> 'f state \<Rightarrow> 'f response \<times> 'f state" where
  "handle cfg P GetRoot st = (root cfg, st)"
| "handle cfg P (GetHealth now) st = (health cfg now st, st)"
| "handle cfg P (PostWebhook data h q dt uuid8 now) st = webhook cfg P data h q dt uuid8 now st"
| "handle cfg P (GetLatest h q) st = (latest cfg P h q st, st)"
| "handle cfg P (GetPull h q format) st = pull cfg P h q format st"

text \<open>The state after a sequence of requests, served one after the other.\<close>

fun run :: "config \<Rightarrow> 'f pyfloat \<Rightarrow> 'f request list \<Rightarrow> 'f state \<Rightarrow> 'f state" where
  "run cfg P [] st = st"
| "run cfg P (r # rs) st = run cfg P rs (snd (handle cfg P r st))"

section \<open>Reference definitions\<close>

text \<open>
  The authenticator's rule in the specification's words: the first non-empty candidate among
  body, header and query.
\<close>

fun first_nonempty :: "string option list \<Rightarrow> string option" where
  "first_nonempty [] = None"
| "first_nonempty (None # cs) = first_nonempty cs"
| "first_nonempty (Some s # cs) = (if s = [] then first_nonempty cs else Some s)"

text \<open>
  The reader's side of the line format, in the specification's words: the line split on the
  pipe character, as \<open>line.split("|")\<close> does.
\<close>

fun split_pipe :: "string \<Rightarrow> string list" where
  "split_pipe [] = [[]]"
| "split_pipe (c # cs) =
     (if c = CHR ''|'' then [] # split_pipe cs
      else (case split_pipe cs of [] \<Rightarrow> [[c]] | f # fs \<Rightarrow> (c # f) # fs))"

section \<open>An implementation of the float operations\<close>

text \<open>
  To run the model on concrete requests: exact decimal arithmetic on rationals. It has no
  rounding, no infinities and no NaN, reads plain decimal notation only and writes at most 17
  fractional digits. On the values the examples below use (integers of a few digits, and the
  decimals 0.01 and 0.1) it returns what Python returns.
\<close>

definition is_digit :: "char \<Rightarrow> bool" where
  "is_digit c = (48 \<le> (of_char c :: nat) \<and> (of_char c :: nat) \<le> 57)"

definition digits_val :: "string \<Rightarrow> nat" where
  "digits_val ds = foldl (\<lambda>a c. 10 * a + (of_char c - 48)) 0 ds"

definition dec_of_str :: "string \<Rightarrow> rat option" where
  "dec_of_str s =
     (let neg = (take 1 s = ''-'');
          body = (if take 1 s = ''-'' \<or> take 1 s = ''+'' then drop 1 s else s);
          ip = takeWhile is_digit body;
          rest = dropWhile is_digit body;
          fp = drop 1 rest
      in if (rest \<noteq> [] \<and> take 1 rest \<noteq> ''.'') \<or> \<not> list_all is_digit fp \<or> (ip = [] \<and> fp = [])
         then None
         else let m = of_nat (digits_val ip) + of_nat (digits_val fp) / 10 ^ length fp
              in Some (if neg then - m else m))"

fun frac_digits :: "nat \<Rightarrow> rat \<Rightarrow> string" where
  "frac_digits 0 x = []"
| "frac_digits (Suc k) x =
     (if x = 0 then []
      else let y = 10 * x; d = nat \<lfloor>y\<rfloor> in char_of (48 + d) # frac_digits k (y - of_nat d))"

definition dec_str :: "rat \<Rightarrow> string" where
  "dec_str x =
     (let a = \<bar>x\<bar>; n = nat \<lfloor>a\<rfloor>; f = a - of_nat n
      in (if x < 0 then ''-'' else []) @ str_nat n @ ''.''
         @ (if f = 0 then ''0'' else frac_digits 17 f))"

definition dec_float :: "rat pyfloat" where
  "dec_float =
     \<lparr> float_of_int = (\<lambda>n. Some (of_int n)),
       float_of_str = dec_of_str,
       float_truthy = (\<lambda>x. x \<noteq> 0),
       int_of_float = (\<lambda>x. Inr (if x < 0 then - \<lfloor>- x\<rfloor> else \<lfloor>x\<rfloor>)),
       str_of_float = dec_str,
       lit_0_01 = 1 / 100 \<rparr>"

section \<open>Example configuration and requests\<close>

definition hhmm :: "nat \<Rightarrow> nat \<Rightarrow> pytime" where
  "hhmm h m = \<lparr> hour = h, minute = m, second = 0, microsecond = 0 \<rparr>"

text \<open>Secret \<open>abc123\<close>, enforcement on, window 09:00 to 09:01.\<close>

definition cfg_on :: config where
  "cfg_on = \<lparr> SECRET = ''abc123'', ENFORCE_HOURS = ''1'', START_HHMM = ''09:00'',
              END_HHMM = ''09:01'', TRADE_START = hhmm 9 0, TRADE_END = hhmm 9 1 \<rparr>"

text \<open>The same with enforcement off.\<close>

definition cfg_off :: config where
  "cfg_off = cfg_on \<lparr> ENFORCE_HOURS := ''0'' \<rparr>"

definition at_10_00 :: datetime where
  "at_10_00 = \<lparr> dt_time = hhmm 10 0, dt_isoformat = ''2026-01-05T10:00:00-04:00'' \<rparr>"

definition at_09_00 :: datetime where
  "at_09_00 = \<lparr> dt_time = hhmm 9 0, dt_isoformat = ''2026-01-05T09:00:00-04:00'' \<rparr>"

definition at_09_01 :: datetime where
  "at_09_01 = \<lparr> dt_time = hhmm 9 1, dt_isoformat = ''2026-01-05T09:01:00-04:00'' \<rparr>"

text \<open>\<open>{"secret": "abc123", "action": "buy", "symbol": "eurusd", "lots": "0.1"}\<close>\<close>

definition data_buy :: "rat pydict" where
  "data_buy = [(''secret'', JStr ''abc123''), (''action'', JStr ''buy''),
               (''symbol'', JStr ''eurusd''), (''lots'', JStr ''0.1'')]"

text \<open>\<open>{"secret": "abc123", "action": "buy", "magic": 0}\<close>\<close>

definition data_magic0 :: "rat pydict" where
  "data_magic0 = [(''secret'', JStr ''abc123''), (''action'', JStr ''buy''), (''magic'', JInt 0)]"

text \<open>\<open>{"secret": "abc123", "action": "buy", "magic": 7}\<close>\<close>

definition data_magic7 :: "rat pydict" where
  "data_magic7 = [(''secret'', JStr ''abc123''), (''action'', JStr ''buy''), (''magic'', JInt 7)]"

text \<open>\<open>{"secret": "abc123", "action": "buy", "symbol": "EUR|USD", "id": "a1"}\<close>\<close>

definition data_pipe :: "rat pydict" where
  "data_pipe = [(''secret'', JStr ''abc123''), (''action'', JStr ''buy''),
                (''symbol'', JStr ''EUR|USD''), (''id'', JStr ''a1'')]"

section \<open>Authentication\<close>

lemma strip_Nil: "strip [] = []"
  by (simp add: strip_def)

text \<open>
  C2. The authenticator never raises on candidates that are strings or absent. It rejects
  whenever the configured secret is empty; otherwise it accepts exactly when the first non-empty
  candidate among body, header and query, in that order, equals the configured secret once
  trimmed. A candidate counts as non-empty before it is trimmed, so a body secret of blanks is
  chosen and rejected whatever the header holds. With no non-empty candidate it rejects.
\<close>

theorem check_secret_first_nonempty:
  "check_secret cfg P (jopt body_secret) (jopt header_secret) (jopt query_secret) =
     Inr (SECRET cfg \<noteq> [] \<and>
          (case first_nonempty [body_secret, header_secret, query_secret] of
             None \<Rightarrow> False
           | Some c \<Rightarrow> strip c = SECRET cfg))"
  by (cases body_secret; cases header_secret; cases query_secret)
     (auto simp: check_secret_def jopt_def por_def str_strip_def bind_error_def strip_Nil)

theorem check_secret_first_nonempty_witness:
  "check_secret (cfg_on \<lparr> SECRET := [] \<rparr>) dec_float (jopt None) (jopt (Some [])) (jopt None) =
     Inr False \<and>
   check_secret cfg_on dec_float (jopt (Some [])) (jopt (Some '' abc123 '')) (jopt (Some ''zzz'')) =
     Inr True \<and>
   check_secret cfg_on dec_float (jopt (Some ''  '')) (jopt (Some ''abc123'')) (jopt None) =
     Inr False \<and>
   check_secret cfg_on dec_float (jopt None) (jopt None) (jopt (Some ''ABC123'')) = Inr False"
proof -
  have e: "SECRET (cfg_on \<lparr> SECRET := [] \<rparr>) = []" "SECRET cfg_on = ''abc123''"
    "strip '' abc123 '' = ''abc123''" "strip ''  '' = []" "strip ''ABC123'' = ''ABC123''"
    by code_simp+
  show ?thesis
    unfolding check_secret_first_nonempty
    by (simp add: e)
qed

section \<open>Action normalisation\<close>

text \<open>
  C5. On a string or an absent value, action normalisation never raises: it trims and
  upper-cases the text (the empty text for an absent value), maps BUY and LONG to BUY, SELL and
  SHORT to SELL, and everything else to the empty string.
\<close>

theorem normalize_action_spec:
  "normalize_action P (jopt a) =
     Inr (let u = upper (strip (case a of None \<Rightarrow> [] | Some s \<Rightarrow> s)) in
          if u = ''BUY'' \<or> u = ''LONG'' then ''BUY''
          else if u = ''SELL'' \<or> u = ''SHORT'' then ''SELL''
          else [])"
  by (cases a)
     (auto simp: normalize_action_def jopt_def por_def str_strip_def bind_error_def strip_Nil
        Let_def)

theorem normalize_action_spec_witness:
  "normalize_action dec_float (jopt (Some '' long '')) = Inr ''BUY'' \<and>
   normalize_action dec_float (jopt (Some ''Short'')) = Inr ''SELL'' \<and>
   normalize_action dec_float (jopt (Some ''hold'')) = Inr [] \<and>
   normalize_action dec_float (jopt (Some [])) = Inr [] \<and>
   normalize_action dec_float (jopt None) = Inr []"
proof -
  have e: "upper (strip '' long '') = ''LONG''" "upper (strip ''Short'') = ''SHORT''"
    "upper (strip ''hold'') = ''HOLD''" "upper (strip []) = []"
    by code_simp+
  show ?thesis
    unfolding normalize_action_spec
    by (simp add: e)
qed

section \<open>The trade window\<close>

text \<open>On valid times, the comparison of field tuples is the order of the time of day.\<close>

lemma time_le_iff:
  assumes "valid_time a" "valid_time b"
  shows "time_le a b = (time_of_day a \<le> time_of_day b)"
  using assms unfolding valid_time_def time_le_def time_of_day_def
  by auto

text \<open>
  C8. With enforcement on (\<open>ENFORCE_HOURS\<close> is \<open>"1"\<close>) the gate admits an instant exactly when
  its local time of day lies between \<open>TRADE_START\<close> and \<open>TRADE_END\<close>, both bounds included;
  with enforcement off it admits every instant.
\<close>

theorem in_trade_window_inclusive:
  assumes "valid_time (TRADE_START cfg)" and "valid_time (TRADE_END cfg)"
    and "valid_time (dt_time dt)"
  shows "in_trade_window cfg dt =
           (if ENFORCE_HOURS cfg = ''1''
            then time_of_day (TRADE_START cfg) \<le> time_of_day (dt_time dt) \<and>
                 time_of_day (dt_time dt) \<le> time_of_day (TRADE_END cfg)
            else True)"
  using assms by (simp add: in_trade_window_def Let_def time_le_iff)

theorem in_trade_window_inclusive_witness:
  "valid_time (TRADE_START cfg_on) \<and> valid_time (TRADE_END cfg_on) \<and>
   valid_time (dt_time at_09_00) \<and> valid_time (dt_time at_10_00) \<and>
   in_trade_window cfg_on at_09_00 \<and> \<not> in_trade_window cfg_on at_10_00 \<and>
   in_trade_window cfg_on at_09_01"
proof -
  have v: "valid_time (TRADE_START cfg_on)" "valid_time (TRADE_END cfg_on)"
    "valid_time (dt_time at_09_00)" "valid_time (dt_time at_10_00)"
    "valid_time (dt_time at_09_01)"
    by (simp_all add: cfg_on_def at_09_00_def at_09_01_def at_10_00_def hhmm_def valid_time_def)
  have e: "ENFORCE_HOURS cfg_on = ''1''"
    "time_of_day (TRADE_START cfg_on) = 32400000000"
    "time_of_day (TRADE_END cfg_on) = 32460000000"
    "time_of_day (dt_time at_09_00) = 32400000000"
    "time_of_day (dt_time at_10_00) = 36000000000"
    "time_of_day (dt_time at_09_01) = 32460000000"
    by (simp_all add: cfg_on_def at_09_00_def at_09_01_def at_10_00_def hhmm_def time_of_day_def)
  show ?thesis
    using v in_trade_window_inclusive [OF v(1) v(2) v(3)]
      in_trade_window_inclusive [OF v(1) v(2) v(4)]
      in_trade_window_inclusive [OF v(1) v(2) v(5)]
    by (simp add: e)
qed

text \<open>
  C10. Whenever \<open>ENFORCE_HOURS\<close> is not exactly the string \<open>"1"\<close>, the gate admits every
  instant, whatever the configured start and end are.
\<close>

theorem enforce_hours_only_1:
  assumes "ENFORCE_HOURS cfg \<noteq> ''1''"
  shows "in_trade_window cfg dt"
  using assms by (simp add: in_trade_window_def)

theorem enforce_hours_only_1_witness:
  "ENFORCE_HOURS cfg_off \<noteq> ''1'' \<and> in_trade_window cfg_off at_10_00 \<and>
   ENFORCE_HOURS (cfg_on \<lparr> ENFORCE_HOURS := ''true'' \<rparr>) \<noteq> ''1'' \<and>
   in_trade_window (cfg_on \<lparr> ENFORCE_HOURS := ''true'' \<rparr>) at_10_00"
proof -
  have a: "ENFORCE_HOURS cfg_off \<noteq> ''1''" by code_simp
  have b: "ENFORCE_HOURS (cfg_on \<lparr> ENFORCE_HOURS := ''true'' \<rparr>) \<noteq> ''1''" by code_simp
  show ?thesis
    using a b enforce_hours_only_1 [OF a, of at_10_00] enforce_hours_only_1 [OF b, of at_10_00]
    by simp
qed

section \<open>The webhook outside the window\<close>

text \<open>
  C6. With enforcement on and the local time outside the window, an authenticated
  \<open>POST /webhook\<close> is answered with status 403 and leaves the state, both \<open>last\<close> and
  \<open>pending\<close>, as it was.
\<close>

theorem webhook_outside_window:
  assumes "check_secret cfg P
             (por P (por P (dget data ''secret'') (dget data ''key'')) (dget data ''token''))
             (jopt header_secret) (jopt query_secret) = Inr True"
    and "ENFORCE_HOURS cfg = ''1''"
    and "\<not> (time_le (TRADE_START cfg) (dt_time dt) \<and> time_le (dt_time dt) (TRADE_END cfg))"
  shows "webhook cfg P data header_secret query_secret dt uuid8 now st =
           (OutsideTradeWindow (dt_isoformat dt) (START_HHMM cfg) (END_HHMM cfg), st) \<and>
         status_code (fst (webhook cfg P data header_secret query_secret dt uuid8 now st)) = 403"
  using assms by (simp add: webhook_def in_trade_window_def Let_def)

theorem webhook_outside_window_witness:
  "check_secret cfg_on dec_float
     (por dec_float (por dec_float (dget data_buy ''secret'') (dget data_buy ''key''))
        (dget data_buy ''token''))
     (jopt None) (jopt None) = Inr True \<and>
   ENFORCE_HOURS cfg_on = ''1'' \<and>
   \<not> (time_le (TRADE_START cfg_on) (dt_time at_10_00) \<and>
      time_le (dt_time at_10_00) (TRADE_END cfg_on)) \<and>
   webhook cfg_on dec_float data_buy None None at_10_00 ''1a2b3c4d'' at_10_00 STATE_init =
     (OutsideTradeWindow ''2026-01-05T10:00:00-04:00'' ''09:00'' ''09:01'', STATE_init) \<and>
   status_code (fst (webhook cfg_on dec_float data_buy None None at_10_00 ''1a2b3c4d'' at_10_00
     STATE_init)) = 403"
proof -
  have a: "check_secret cfg_on dec_float
     (por dec_float (por dec_float (dget data_buy ''secret'') (dget data_buy ''key''))
        (dget data_buy ''token''))
     (jopt None) (jopt None) = Inr True"
    by code_simp
  have b: "ENFORCE_HOURS cfg_on = ''1''" by code_simp
  have c: "\<not> (time_le (TRADE_START cfg_on) (dt_time at_10_00) \<and>
      time_le (dt_time at_10_00) (TRADE_END cfg_on))"
    by code_simp
  have d: "dt_isoformat at_10_00 = ''2026-01-05T10:00:00-04:00''"
    "START_HHMM cfg_on = ''09:00''" "END_HHMM cfg_on = ''09:01''"
    by code_simp+
  show ?thesis
    using a b c webhook_outside_window [OF a b c, of "''1a2b3c4d''" at_10_00 STATE_init]
    by (simp add: d)
qed

section \<open>Write, then take twice\<close>

lemma webhook_Stored:
  assumes "webhook cfg P data h q dt uuid8 now st = (Stored i t, st1)"
  shows "\<exists>s. build_signal P data uuid8 now = Inr s \<and> sig_id s = i \<and> sig_ts s = t \<and>
             st1 = st\<lparr> last_sig := Some s, pending := Some s \<rparr>"
  using assms
  by (auto simp: webhook_def Let_def split: sum.splits if_splits)

lemma pull_pending:
  assumes "check_secret cfg P JNull (jopt h) (jopt q) = Inr True"
  shows "pull cfg P h q f st =
           (case pending st of
              None \<Rightarrow> (if fmt_of f = ''txt'' then PullText ''NONE'' else PullJson None, st)
            | Some s \<Rightarrow>
                (if fmt_of f = ''txt'' then PullText (line_text P s) else PullJson (Some s),
                 st\<lparr> pending := None \<rparr>))"
  using assms by (simp add: pull_def Let_def)

text \<open>
  C3. After an accepted \<open>POST /webhook\<close> (answer \<open>Stored\<close>, status 200) that built the
  signal \<open>s\<close>, and with no write in between, the first authenticated \<open>GET /pull\<close> returns \<open>s\<close>
  (its line in \<open>txt\<close> format, the signal itself otherwise) and clears \<open>pending\<close>; the second one
  returns absence: the text \<open>NONE\<close> in \<open>txt\<close> format, a null \<open>pending\<close> otherwise.
\<close>

theorem write_take_take:
  assumes "webhook cfg P data h q dt uuid8 now st = (Stored i t, st1)"
    and "check_secret cfg P JNull (jopt h1) (jopt q1) = Inr True"
    and "check_secret cfg P JNull (jopt h2) (jopt q2) = Inr True"
  shows "\<exists>s. build_signal P data uuid8 now = Inr s \<and> sig_id s = i \<and>
             last_sig st1 = Some s \<and> pending st1 = Some s \<and>
             pull cfg P h1 q1 f1 st1 =
               (if fmt_of f1 = ''txt'' then PullText (line_text P s) else PullJson (Some s),
                st1\<lparr> pending := None \<rparr>) \<and>
             pull cfg P h2 q2 f2 (st1\<lparr> pending := None \<rparr>) =
               (if fmt_of f2 = ''txt'' then PullText ''NONE'' else PullJson None,
                st1\<lparr> pending := None \<rparr>)"
proof -
  from webhook_Stored [OF assms(1)] obtain s where
    s: "build_signal P data uuid8 now = Inr s" "sig_id s = i"
      "st1 = st\<lparr> last_sig := Some s, pending := Some s \<rparr>"
    by blast
  have p1: "pending st1 = Some s" and l1: "last_sig st1 = Some s"
    using s(3) by simp_all
  have p2: "pending (st1\<lparr> pending := None \<rparr>) = None"
    by simp
  show ?thesis
    using s(1,2) p1 l1
    by (simp add: pull_pending [OF assms(2)] pull_pending [OF assms(3)])
qed

theorem write_take_take_witness:
  "\<exists>st1.
     webhook cfg_off dec_float data_buy None None at_10_00 ''1a2b3c4d'' at_10_00 STATE_init =
       (Stored ''1a2b3c4d'' ''2026-01-05T10:00:00-04:00'', st1) \<and>
     check_secret cfg_off dec_float JNull (jopt None) (jopt (Some ''abc123'')) = Inr True \<and>
     pull cfg_off dec_float None (Some ''abc123'') (Some ''txt'') st1 =
       (PullText ''OK|1a2b3c4d|BUY|eurusd|0.1|||2026-01-05T10:00:00-04:00|2026|TV'',
        st1\<lparr> pending := None \<rparr>) \<and>
     pull cfg_off dec_float None (Some ''abc123'') (Some ''txt'') (st1\<lparr> pending := None \<rparr>) =
       (PullText ''NONE'', st1\<lparr> pending := None \<rparr>)"
proof -
  define st1 where
    "st1 = snd (webhook cfg_off dec_float data_buy None None at_10_00 ''1a2b3c4d'' at_10_00
       (STATE_init :: rat state))"
  have w: "webhook cfg_off dec_float data_buy None None at_10_00 ''1a2b3c4d'' at_10_00 STATE_init =
       (Stored ''1a2b3c4d'' ''2026-01-05T10:00:00-04:00'', st1)"
    unfolding st1_def by code_simp
  have c: "check_secret cfg_off dec_float JNull (jopt None) (jopt (Some ''abc123'')) = Inr True"
    by code_simp
  have b: "build_signal dec_float data_buy ''1a2b3c4d'' at_10_00 =
             Inr \<lparr> sig_id = ''1a2b3c4d'', sig_ts = ''2026-01-05T10:00:00-04:00'',
                   sig_action = ''BUY'', sig_symbol = ''eurusd'', sig_lots = 1 / 10,
                   sig_sl = None, sig_tp = None, sig_comment = ''TV'', sig_magic = 2026,
                   sig_raw = data_buy \<rparr>"
    by code_simp
  have l: "line_text dec_float
             \<lparr> sig_id = ''1a2b3c4d'', sig_ts = ''2026-01-05T10:00:00-04:00'',
               sig_action = ''BUY'', sig_symbol = ''eurusd'', sig_lots = 1 / 10,
               sig_sl = None, sig_tp = None, sig_comment = ''TV'', sig_magic = 2026,
               sig_raw = data_buy \<rparr> =
           ''OK|1a2b3c4d|BUY|eurusd|0.1|||2026-01-05T10:00:00-04:00|2026|TV''"
    by code_simp
  have f: "fmt_of (Some ''txt'') = ''txt''"
    by code_simp
  from write_take_take [OF w c c, of "Some ''txt''" "Some ''txt''"] b l f
  have "pull cfg_off dec_float None (Some ''abc123'') (Some ''txt'') st1 =
       (PullText ''OK|1a2b3c4d|BUY|eurusd|0.1|||2026-01-05T10:00:00-04:00|2026|TV'',
        st1\<lparr> pending := None \<rparr>) \<and>
     pull cfg_off dec_float None (Some ''abc123'') (Some ''txt'') (st1\<lparr> pending := None \<rparr>) =
       (PullText ''NONE'', st1\<lparr> pending := None \<rparr>)"
    by auto
  with w c show ?thesis by blast
qed

section \<open>The invariant of the store\<close>

lemma handle_step:
  "snd (handle cfg P r st) = st \<or>
   (case r of
      PostWebhook d h q dt u n \<Rightarrow>
        last_sig (snd (handle cfg P r st)) = pending (snd (handle cfg P r st)) \<and>
        pending (snd (handle cfg P r st)) \<noteq> None
    | GetPull h q f \<Rightarrow> snd (handle cfg P r st) = st\<lparr> pending := None \<rparr>
    | _ \<Rightarrow> False)"
  by (cases r) (auto simp: webhook_def pull_def Let_def split: sum.splits option.splits)

lemma handle_inv:
  assumes "pending st = None \<or> pending st = last_sig st"
  shows "pending (snd (handle cfg P r st)) = None \<or>
         pending (snd (handle cfg P r st)) = last_sig (snd (handle cfg P r st))"
  using assms
  by (cases r) (auto simp: webhook_def pull_def Let_def split: sum.splits option.splits)

lemma run_inv:
  assumes "pending st = None \<or> pending st = last_sig st"
  shows "pending (run cfg P rs st) = None \<or> pending (run cfg P rs st) = last_sig (run cfg P rs st)"
  using assms
proof (induction rs arbitrary: st)
  case Nil
  then show ?case by simp
next
  case (Cons r rs)
  from handle_inv [OF Cons.prems] show ?case
    by (simp add: Cons.IH)
qed

text \<open>
  C4. After any sequence of requests from the initial empty state, \<open>pending\<close> is \<open>None\<close> or
  equal to \<open>last\<close>. Every request leaves the state as it was, or is a webhook that sets both
  slots to the same signal, or is a pull that only clears \<open>pending\<close>.
\<close>

theorem pending_none_or_last:
  "(pending (run cfg P rs STATE_init) = None \<or>
    pending (run cfg P rs STATE_init) = last_sig (run cfg P rs STATE_init)) \<and>
   (\<forall>r st. snd (handle cfg P r st) = st \<or>
      (case r of
         PostWebhook d h q dt u n \<Rightarrow>
           last_sig (snd (handle cfg P r st)) = pending (snd (handle cfg P r st)) \<and>
           pending (snd (handle cfg P r st)) \<noteq> None
       | GetPull h q f \<Rightarrow> snd (handle cfg P r st) = st\<lparr> pending := None \<rparr>
       | _ \<Rightarrow> False))"
proof -
  have "pending (STATE_init :: 'a state) = None \<or> pending (STATE_init :: 'a state) = last_sig STATE_init"
    by (simp add: STATE_init_def)
  from run_inv [OF this] show ?thesis
    using handle_step by blast
qed


section \<open>The magic number\<close>

lemma build_signal_magic_eq:
  assumes "build_signal P data uuid8 now = Inr s"
  shows "(case safe_float P (por P (dget data ''magic'') (JInt 2026)) of
            None \<Rightarrow> Inr 2026
          | Some x \<Rightarrow> if float_truthy P x then int_of_float P x else Inr 2026) =
         Inr (sig_magic s)"
  using assms
  by (auto simp: build_signal_def bind_error_def Let_def split: sum.splits)

text \<open>
  C9, as stated, fails: with \<open>"magic": 0\<close> the value is present and coerces to the integer 0,
  and the normalised magic number is the default 2026.
\<close>

theorem magic_default_on_zero:
  "map_of data_magic0 ''magic'' = Some (JInt 0) \<and>
   safe_float dec_float (JInt 0) = Some 0 \<and>
   int_of_float dec_float 0 = Inr 0 \<and>
   build_signal dec_float data_magic0 ''1a2b3c4d'' at_10_00 =
     Inr \<lparr> sig_id = ''1a2b3c4d'', sig_ts = ''2026-01-05T10:00:00-04:00'',
           sig_action = ''BUY'', sig_symbol = ''XAUUSD'', sig_lots = 1 / 100,
           sig_sl = None, sig_tp = None, sig_comment = ''TV'', sig_magic = 2026,
           sig_raw = data_magic0 \<rparr>"
  by code_simp

text \<open>
  C9, amended. Let \<open>v\<close> be the value under key \<open>magic\<close> (\<open>None\<close> when absent), and let
  \<open>float\<close> and \<open>int\<close> convert 2026 exactly. When \<open>build_signal\<close> returns, the magic number
  is \<open>int(x)\<close> if \<open>v\<close> is truthy and coerces to a non-zero float \<open>x\<close>; it is the default 2026 if
  \<open>v\<close> is absent or falsy (\<open>None\<close>, 0, the empty string, \<open>false\<close>), does not coerce, or
  coerces to zero.
\<close>

theorem build_signal_magic:
  assumes "build_signal P data uuid8 now = Inr s"
    and "float_of_int P 2026 = Some d" and "float_truthy P d" and "int_of_float P d = Inr 2026"
  shows "(\<not> truthy P (dget data ''magic'') \<longrightarrow> sig_magic s = 2026) \<and>
         (safe_float P (dget data ''magic'') = None \<longrightarrow> sig_magic s = 2026) \<and>
         (\<forall>x. safe_float P (dget data ''magic'') = Some x \<and> \<not> float_truthy P x \<longrightarrow>
              sig_magic s = 2026) \<and>
         (\<forall>x. truthy P (dget data ''magic'') \<and> safe_float P (dget data ''magic'') = Some x \<and>
              float_truthy P x \<longrightarrow> int_of_float P x = Inr (sig_magic s))"
  using build_signal_magic_eq [OF assms(1)] assms(2-4)
  by (cases "truthy P (dget data ''magic'')") (auto simp: por_def split: option.splits if_splits)

theorem build_signal_magic_witness:
  "build_signal dec_float data_magic7 ''1a2b3c4d'' at_10_00 =
     Inr \<lparr> sig_id = ''1a2b3c4d'', sig_ts = ''2026-01-05T10:00:00-04:00'',
           sig_action = ''BUY'', sig_symbol = ''XAUUSD'', sig_lots = 1 / 100,
           sig_sl = None, sig_tp = None, sig_comment = ''TV'', sig_magic = 7,
           sig_raw = data_magic7 \<rparr> \<and>
   float_of_int dec_float 2026 = Some 2026 \<and> float_truthy dec_float 2026 \<and>
   int_of_float dec_float 2026 = Inr 2026 \<and>
   truthy dec_float (dget data_magic7 ''magic'') \<and>
   safe_float dec_float (dget data_magic7 ''magic'') = Some 7 \<and>
   float_truthy dec_float 7 \<and> int_of_float dec_float 7 = Inr 7"
proof -
  have b: "build_signal dec_float data_magic7 ''1a2b3c4d'' at_10_00 =
     Inr \<lparr> sig_id = ''1a2b3c4d'', sig_ts = ''2026-01-05T10:00:00-04:00'',
           sig_action = ''BUY'', sig_symbol = ''XAUUSD'', sig_lots = 1 / 100,
           sig_sl = None, sig_tp = None, sig_comment = ''TV'', sig_magic = 7,
           sig_raw = data_magic7 \<rparr>"
    by code_simp
  have p: "float_of_int dec_float 2026 = Some 2026" "float_truthy dec_float 2026"
    "int_of_float dec_float 2026 = Inr 2026"
    by code_simp+
  have v: "truthy dec_float (dget data_magic7 ''magic'')"
    "safe_float dec_float (dget data_magic7 ''magic'') = Some 7"
    "float_truthy dec_float 7"
    by code_simp+
  from build_signal_magic [OF b p] v have "int_of_float dec_float 7 = Inr 7"
    by simp
  with b p v show ?thesis by simp
qed

section \<open>The line format\<close>

text \<open>
  When neither the id, the action, the symbol, the timestamp nor the text of a float contains
  the pipe character, the line splits into exactly the ten fields it was built from.
\<close>

lemma split_pipe_no_pipe:
  assumes "CHR ''|'' \<notin> set a"
  shows "split_pipe a = [a]"
  using assms by (induction a) auto

lemma split_pipe_field:
  assumes "CHR ''|'' \<notin> set a"
  shows "split_pipe (a @ CHR ''|'' # b) = a # split_pipe b"
  using assms by (induction a) auto

lemma digit_not_pipe:
  assumes "d < 10"
  shows "char_of (48 + d :: nat) \<noteq> CHR ''|''"
proof
  assume "char_of (48 + d) = CHR ''|''"
  then have "of_char (char_of (48 + d)) = (of_char (CHR ''|'') :: nat)"
    by simp
  with assms show False
    by (simp add: of_char_of)
qed

lemma str_nat_no_pipe: "CHR ''|'' \<notin> set (str_nat n)"
proof (induction n rule: str_nat.induct)
  case (1 n)
  show ?case
  proof (cases "n < 10")
    case True
    then show ?thesis
      using digit_not_pipe [of n] by (subst str_nat.simps) auto
  next
    case False
    have "n mod 10 < 10" by simp
    from digit_not_pipe [OF this] 1 False show ?thesis
      by (subst str_nat.simps) auto
  qed
qed

lemma str_int_no_pipe: "CHR ''|'' \<notin> set (str_int i)"
  by (simp add: str_int_def str_nat_no_pipe)

lemma replace_pipe_no_pipe: "CHR ''|'' \<notin> set (replace_pipe c)"
  by (auto simp: replace_pipe_def)

lemma line_text_fields:
  assumes "CHR ''|'' \<notin> set (sig_id s)" and "CHR ''|'' \<notin> set (sig_action s)"
    and "CHR ''|'' \<notin> set (sig_symbol s)" and "CHR ''|'' \<notin> set (sig_ts s)"
    and "\<And>x. CHR ''|'' \<notin> set (str_of_float P x)"
  shows "split_pipe (line_text P s) =
           [''OK'', sig_id s, sig_action s, sig_symbol s, str_of_float P (sig_lots s),
            (case sig_sl s of None \<Rightarrow> [] | Some x \<Rightarrow> str_of_float P x),
            (case sig_tp s of None \<Rightarrow> [] | Some x \<Rightarrow> str_of_float P x),
            sig_ts s, str_int (sig_magic s), replace_pipe (sig_comment s)]"
proof -
  have sl: "CHR ''|'' \<notin> set (case sig_sl s of None \<Rightarrow> [] | Some x \<Rightarrow> str_of_float P x)"
    using assms(5) by (cases "sig_sl s") auto
  have tp: "CHR ''|'' \<notin> set (case sig_tp s of None \<Rightarrow> [] | Some x \<Rightarrow> str_of_float P x)"
    using assms(5) by (cases "sig_tp s") auto
  have ok: "CHR ''|'' \<notin> set ''OK''" by simp
  show ?thesis
    unfolding line_text_def Let_def
    using split_pipe_field [OF ok] split_pipe_field [OF assms(1)] split_pipe_field [OF assms(2)]
      split_pipe_field [OF assms(3)] split_pipe_field [OF assms(5)] split_pipe_field [OF sl]
      split_pipe_field [OF tp] split_pipe_field [OF assms(4)]
      split_pipe_field [OF str_int_no_pipe]
      split_pipe_no_pipe [OF replace_pipe_no_pipe]
    by simp
qed

text \<open>
  C7 at a symbol that contains the pipe character: the webhook stores the symbol \<open>EUR|USD\<close> as it
  came, the line of \<open>format=txt\<close> has eleven fields, and its fields 3 and 4, where the reader
  expects symbol and lots, are \<open>EUR\<close> and \<open>USD\<close>.
\<close>

theorem line_text_pipe_in_symbol:
  "fst (webhook cfg_off dec_float data_pipe None None at_10_00 ''1a2b3c4d'' at_10_00 STATE_init) =
     Stored ''a1'' ''2026-01-05T10:00:00-04:00'' \<and>
   map_option sig_symbol
     (pending (snd (webhook cfg_off dec_float data_pipe None None at_10_00 ''1a2b3c4d'' at_10_00
        STATE_init))) = Some ''EUR|USD'' \<and>
   fst (pull cfg_off dec_float None (Some ''abc123'') (Some ''txt'')
     (snd (webhook cfg_off dec_float data_pipe None None at_10_00 ''1a2b3c4d'' at_10_00
        STATE_init))) =
     PullText ''OK|a1|BUY|EUR|USD|0.01|||2026-01-05T10:00:00-04:00|2026|TV'' \<and>
   split_pipe ''OK|a1|BUY|EUR|USD|0.01|||2026-01-05T10:00:00-04:00|2026|TV'' =
     [''OK'', ''a1'', ''BUY'', ''EUR'', ''USD'', ''0.01'', [], [],
      ''2026-01-05T10:00:00-04:00'', ''2026'', ''TV'']"
  by code_simp

end
